theory Spec2Isabelle
  imports Main
begin

section \<open>Go values shared by the three operations\<close>

text \<open>
  A Go \<open>error\<close> is an interface value whose only observable content is the message that
  \<open>Error()\<close> returns; \<open>nil\<close> is \<open>None\<close> of \<open>error option\<close>. \<open>fmt.Errorf\<close> builds an
  error from its formatted message, and the verb \<open>%v\<close> applied to an error prints that message.
  A function that returns \<open>(value, error)\<close> is modelled as returning the pair, as Go does.
\<close>

datatype error = Err (Error: string)

text \<open>
  A run-time panic (here: an index out of range) is an outcome of its own, distinct from every
  returned value.
\<close>

datatype 'a outcome = Panic | Return 'a

section \<open>Base layer detection (distribution/pull_v2_unix.go, tag windows)\<close>

subsection \<open>Data\<close>

text \<open>
  Modelled from the spec: the type declarations \<open>image.V1Image\<close>, \<open>image.RootFS\<close>,
  \<open>image.Image\<close> and \<open>schema1.Manifest\<close> with its \<open>schema1.History\<close>, which
  belong to packages whose source is not at hand. The records carry the fields that \<open>detectBaseLayer\<close> reads and writes; the
  spec describes a RootFS as a sequence of layer identifiers with a \<open>BaseLayer\<close> reference and
  a \<open>Type\<close> tag, and a manifest as a sequence of history entries with an embedded metadata blob.
  Records are extensible, so a statement about \<open>'a image_RootFS_scheme\<close> covers a RootFS with
  any further fields. Pointers are modelled by the values they point to.
\<close>

record image_V1Image =
  ID :: string
  Parent :: string

record image_RootFS =
  Type :: string
  DiffIDs :: "string list"
  BaseLayer :: string

record image_Image =
  RootFS :: image_RootFS

record schema1_History =
  V1Compatibility :: string

record schema1_Manifest =
  History :: "schema1_History list"

text \<open>
  What \<open>detectBaseLayer\<close> calls outside this file, taken as parameters:
  \<^item> \<open>json_Unmarshal data v\<close> is \<open>json.Unmarshal([]byte(data), v)\<close>: the struct after
    decoding into it, and the error;
  \<^item> \<open>TypeLayersWithBase\<close> is the constant \<open>image.TypeLayersWithBase\<close>;
  \<open>BaseLayerID\<close> is the method \<open>(*RootFS).BaseLayerID\<close>;
  \<^item> \<open>fmt_q s\<close> is the rendering of the string \<open>s\<close> by the verb \<open>%q\<close> of package fmt.
\<close>

record image_lib =
  json_Unmarshal :: "string \<Rightarrow> image_V1Image \<Rightarrow> image_V1Image \<times> error option"
  TypeLayersWithBase :: string
  BaseLayerID :: "image_RootFS \<Rightarrow> string"
  fmt_q :: "string \<Rightarrow> string"

text \<open>
  The image store is used through \<open>is.Map()\<close> alone. A Go map is ranged over in an order the
  language leaves open, so the store is modelled by the entries of \<open>is.Map()\<close> in the order
  in which this run of the \<open>range\<close> statement visits them; every statement below holds for
  every such order. The calls made on the store are recorded, so that "the store is not
  consulted" can be said.
\<close>

type_synonym image_Store = "(string \<times> image_Image) list"

datatype store_call = Store_Map

subsection \<open>The code\<close>

text \<open>
  Lines 155-161, the \<open>range\<close> loop: \<open>Some\<close> of the updated RootFS when the loop body
  returns \<open>nil\<close>, \<open>None\<close> when the loop runs to its end.
\<close>

fun detectBaseLayer_range ::
  "image_lib \<Rightarrow> image_V1Image \<Rightarrow> image_Store \<Rightarrow> 'a image_RootFS_scheme
    \<Rightarrow> 'a image_RootFS_scheme option" where
  "detectBaseLayer_range L v1img [] rootFS = None"
| "detectBaseLayer_range L v1img ((k, img) # rest) rootFS =
     (if Type (RootFS img) = TypeLayersWithBase L \<and> BaseLayerID L (RootFS img) = Parent v1img
      then Some (rootFS\<lparr>BaseLayer := BaseLayer (RootFS img), Type := TypeLayersWithBase L\<rparr>)
      else detectBaseLayer_range L v1img rest rootFS)"

text \<open>
  Lines 146-163. The result is the RootFS behind the pointer \<open>rootFS\<close> on return, the
  returned error, and the calls made on the store. \<open>m.History[len(m.History)-1]\<close> panics on an
  empty history, before anything is written.
\<close>

definition detectBaseLayer_windows ::
  "image_lib \<Rightarrow> image_Store \<Rightarrow> 'm schema1_Manifest_scheme \<Rightarrow> 'a image_RootFS_scheme
    \<Rightarrow> ('a image_RootFS_scheme \<times> error option \<times> store_call list) outcome" where
  "detectBaseLayer_windows L istore m rootFS =
     (if History m = [] then Panic
      else
        (case json_Unmarshal L (V1Compatibility (History m ! (length (History m) - 1)))
                \<lparr>ID = [], Parent = []\<rparr> of
           (v1img, Some err) \<Rightarrow> Return (rootFS, Some err, [])
         | (v1img, None) \<Rightarrow>
             if Parent v1img = []
             then Return (rootFS,
                    Some (Err (''Last layer '' @ fmt_q L (ID v1img)
                                 @ '' does not have a base layer reference'')), [])
             else
               (case detectBaseLayer_range L v1img istore rootFS of
                  Some rootFS' \<Rightarrow> Return (rootFS', None, [Store_Map])
                | None \<Rightarrow>
                    Return (rootFS,
                      Some (Err (''Invalid base layer '' @ fmt_q L (Parent v1img))),
                      [Store_Map]))))"

text \<open>Lines 28-30, the variant of the other build: no base layer, nothing to do.\<close>

definition detectBaseLayer_unix ::
  "image_Store \<Rightarrow> 'm schema1_Manifest_scheme \<Rightarrow> 'a image_RootFS_scheme
    \<Rightarrow> ('a image_RootFS_scheme \<times> error option \<times> store_call list) outcome" where
  "detectBaseLayer_unix istore m rootFS = Return (rootFS, None, [])"

section \<open>Opening a layer (distribution/pull_v2_unix.go, tag windows)\<close>

subsection \<open>Data\<close>

text \<open>
  Modelled from the spec: the declarations of \<open>v2LayerDescriptor\<close> and of
  \<open>distribution.Descriptor\<close>, whose source is not at hand. The spec gives a layer descriptor a digest,
  an ordered list of alternate source URLs and a media type; \<open>open\<close> reads \<open>ld.digest\<close>
  and \<open>ld.src.URLs\<close>.
\<close>

record distribution_Descriptor =
  MediaType :: string
  URLs :: "string list"

record v2LayerDescriptor =
  digest :: string
  src :: distribution_Descriptor

text \<open>
  A stream is known by where it was opened: \<open>HTTPReadSeeker url\<close> is the value of
  \<open>transport.NewHTTPReadSeeker(http.DefaultClient, url, nil)\<close>.
\<close>

datatype ReadSeekCloser = HTTPReadSeeker string | BlobReader string

definition SEEK_SET :: int where
  "SEEK_SET = 0"

text \<open>
  The registry and the network are a state \<open>'net\<close> that every call may read and change, so
  that the same URL may fail now and answer later. The calls are parameters:
  \<^item> \<open>Blobs_Open dgst\<close> is \<open>ld.repo.Blobs(ctx).Open(ctx, dgst)\<close>;
  \<^item> \<open>Seek rsc offset whence\<close> is \<open>rsc.Seek(offset, whence)\<close>;
  \<^item> \<open>Close rsc\<close> is \<open>rsc.Close()\<close>.
  Each call made is recorded in order.
\<close>

record 'net transport =
  Blobs_Open :: "string \<Rightarrow> 'net \<Rightarrow> (ReadSeekCloser option \<times> error option) \<times> 'net"
  Seek :: "ReadSeekCloser \<Rightarrow> int \<Rightarrow> int \<Rightarrow> 'net \<Rightarrow> (int \<times> error option) \<times> 'net"
  Close :: "ReadSeekCloser \<Rightarrow> 'net \<Rightarrow> error option \<times> 'net"

datatype net_call =
  Call_Blobs_Open string
| Call_Seek ReadSeekCloser int int
| Call_Close ReadSeekCloser

subsection \<open>The code\<close>

text \<open>
  Lines 186-195, the loop over \<open>ld.src.URLs\<close> and the \<open>return rsc, err\<close> after it. The
  pair \<open>(rsc, err)\<close> holds the two variables declared before the loop; \<open>break\<close> leaves the
  loop with the stream just opened.
\<close>

fun open_range ::
  "'net transport \<Rightarrow> string list \<Rightarrow> ReadSeekCloser option \<times> error option \<Rightarrow> 'net
    \<Rightarrow> net_call list \<Rightarrow> (ReadSeekCloser option \<times> error option) \<times> 'net \<times> net_call list" where
  "open_range T [] (rsc, err) net calls = ((rsc, err), net, calls)"
| "open_range T (url # urls) (rsc, err) net calls =
     (case Seek T (HTTPReadSeeker url) 0 SEEK_SET net of
        ((pos, err'), net') \<Rightarrow>
          if err' = None
          then ((Some (HTTPReadSeeker url), err'), net',
                calls @ [Call_Seek (HTTPReadSeeker url) 0 SEEK_SET])
          else open_range T urls (None, err')
                 (snd (Close T (HTTPReadSeeker url) net'))
                 (calls @ [Call_Seek (HTTPReadSeeker url) 0 SEEK_SET,
                           Call_Close (HTTPReadSeeker url)]))"

text \<open>Lines 174-196.\<close>

definition open_windows ::
  "'net transport \<Rightarrow> 'l v2LayerDescriptor_scheme \<Rightarrow> 'net
    \<Rightarrow> (ReadSeekCloser option \<times> error option) \<times> 'net \<times> net_call list" where
  "open_windows T ld net =
     (if length (URLs (src ld)) = 0
      then (case Blobs_Open T (digest ld) net of
              (r, net') \<Rightarrow> (r, net', [Call_Blobs_Open (digest ld)]))
      else open_range T (URLs (src ld)) (None, None) net [])"

text \<open>Lines 32-35, the variant of the other build: the registry's blob store only.\<close>

definition open_unix ::
  "'net transport \<Rightarrow> 'l v2LayerDescriptor_scheme \<Rightarrow> 'net
    \<Rightarrow> (ReadSeekCloser option \<times> error option) \<times> 'net \<times> net_call list" where
  "open_unix T ld net =
     (case Blobs_Open T (digest ld) net of
        (r, net') \<Rightarrow> (r, net', [Call_Blobs_Open (digest ld)]))"

section \<open>The trust check (distribution/pull_v2_unix.go, both builds)\<close>

subsection \<open>Data\<close>

text \<open>
  \<open>reference.Named\<close> is an interface of a package whose source is not at hand: a reference is a
  value of a type \<open>'ref\<close>, and what \<open>checkTrusted\<close> calls from the libraries is a parameter:
  \<^item> \<open>ref_String r\<close> is \<open>r.String()\<close>;
  \<^item> \<open>manifest_Digest mfst\<close> is \<open>manifest.Digest(mfst)\<close>;
  \<^item> \<open>reference_WithDigest r dgst\<close> is \<open>reference.WithDigest(r, digest.Digest(dgst))\<close>, the
    reference \<open>r\<close> pinned to the digest.
  An unparsed image is known by what its method \<open>Manifest()\<close> returns (the manifest, its media
  type, the error) and by whatever else the policy engine reads in it (the record is
  extensible). The policy context is known by its method \<open>IsRunningImageAllowed\<close>.
\<close>

record 'ref trust_lib =
  ref_String :: "'ref \<Rightarrow> string"
  manifest_Digest :: "string \<Rightarrow> string \<times> error option"
  reference_WithDigest :: "'ref \<Rightarrow> string \<Rightarrow> 'ref option \<times> error option"

record types_UnparsedImage =
  Manifest :: "string \<times> string \<times> error option"

type_synonym 'u signature_PolicyContext = "'u types_UnparsedImage_scheme \<Rightarrow> bool \<times> error option"

definition IsRunningImageAllowed ::
  "'u signature_PolicyContext \<Rightarrow> 'u types_UnparsedImage_scheme \<Rightarrow> bool \<times> error option" where
  "IsRunningImageAllowed pc unparsed = pc unparsed"

record ('ref, 'u) v2Puller =
  originalRef :: "'ref option"
  policyContext :: "'u signature_PolicyContext"

subsection \<open>The code\<close>

text \<open>
  Lines 86-111, the build with a signature policy. The result is the puller after the call
  (\<open>p.originalRef\<close> is assigned first), the returned reference and the returned error.
\<close>

definition checkTrusted_unix ::
  "'ref trust_lib \<Rightarrow> ('ref, 'u, 'p) v2Puller_scheme \<Rightarrow> 'ref \<Rightarrow> 'u types_UnparsedImage_scheme
    \<Rightarrow> ('ref, 'u, 'p) v2Puller_scheme \<times> 'ref option \<times> error option" where
  "checkTrusted_unix L p0 ref unparsed =
     (let p = p0\<lparr>originalRef := Some ref\<rparr> in
      case IsRunningImageAllowed (policyContext p) unparsed of
        (allowed, err) \<Rightarrow>
          if \<not> allowed then
            (case err of
               Some e \<Rightarrow>
                 (p, None, Some (Err (ref_String L ref @ '' isn't allowed: '' @ Error e)))
             | None \<Rightarrow> (p, None, Some (Err (ref_String L ref @ '' isn't allowed''))))
          else
            (case err of
               Some e \<Rightarrow> (p, None, Some e)
             | None \<Rightarrow>
                 (case Manifest unparsed of
                    (mfst, mediaType, Some e) \<Rightarrow> (p, None, Some e)
                  | (mfst, mediaType, None) \<Rightarrow>
                      (case manifest_Digest L mfst of
                         (dgst, Some e) \<Rightarrow> (p, None, Some e)
                       | (dgst, None) \<Rightarrow>
                           (case reference_WithDigest L ref dgst of
                              (ref', Some e) \<Rightarrow> (p, None, Some e)
                            | (ref', None) \<Rightarrow> (p, ref', None))))))"

text \<open>Lines 206-208, the build without a signature policy.\<close>

definition checkTrusted_windows ::
  "('ref, 'u, 'p) v2Puller_scheme \<Rightarrow> 'ref \<Rightarrow> 'u types_UnparsedImage_scheme
    \<Rightarrow> ('ref, 'u, 'p) v2Puller_scheme \<times> 'ref option \<times> error option" where
  "checkTrusted_windows p ref unparsed = (p, Some ref, None)"

section \<open>Vocabulary of the statements\<close>

text \<open>
  \<open>failures T urls net\<close> says that every URL of \<open>urls\<close>, tried in this order from the state
  \<open>net\<close> (a stream opened, sought to offset 0, and closed after its failure), fails: it is
  \<open>Some\<close> of the errors, one for each URL in order, and of the state reached, and \<open>None\<close> as
  soon as one attempt succeeds.
\<close>

fun failures :: "'net transport \<Rightarrow> string list \<Rightarrow> 'net \<Rightarrow> (error list \<times> 'net) option" where
  "failures T [] net = Some ([], net)"
| "failures T (url # urls) net =
     (case Seek T (HTTPReadSeeker url) 0 SEEK_SET net of
        ((pos, None), net') \<Rightarrow> None
      | ((pos, Some e), net') \<Rightarrow>
          (case failures T urls (snd (Close T (HTTPReadSeeker url) net')) of
             None \<Rightarrow> None
           | Some (errs, net'') \<Rightarrow> Some (e # errs, net'')))"

text \<open>The calls that a failed attempt on each URL of a list leaves in the record.\<close>

fun failed_calls :: "string list \<Rightarrow> net_call list" where
  "failed_calls [] = []"
| "failed_calls (url # urls) =
     Call_Seek (HTTPReadSeeker url) 0 SEEK_SET # Call_Close (HTTPReadSeeker url)
       # failed_calls urls"

text \<open>The URLs on which a seek was attempted, in the order of the attempts.\<close>

fun urls_tried :: "net_call list \<Rightarrow> string list" where
  "urls_tried [] = []"
| "urls_tried (Call_Seek (HTTPReadSeeker url) offset whence # calls) = url # urls_tried calls"
| "urls_tried (c # calls) = urls_tried calls"

section \<open>Stand-ins for the libraries, for the closed examples\<close>

text \<open>
  The statements below hold for every library behaviour. Their examples run on the following
  stand-ins: a decoder that knows four metadata blobs, a base layer identifier that prefixes the
  base layer's name, and a \<open>%q\<close> that puts its argument between double quotes (what Go prints
  for a string without special characters).
\<close>

definition example_Unmarshal :: "string \<Rightarrow> image_V1Image \<Rightarrow> image_V1Image \<times> error option" where
  "example_Unmarshal data v =
     (if data = ''e0'' then (v\<lparr>ID := ''L0'', Parent := ''id:B''\<rparr>, None)
      else if data = ''e1'' then (v\<lparr>ID := ''L1'', Parent := ''L0''\<rparr>, None)
      else if data = ''e2'' then (v\<lparr>ID := ''L2''\<rparr>, None)
      else if data = ''e3'' then (v\<lparr>ID := ''L3'', Parent := ''id:Z''\<rparr>, None)
      else (v, Some (Err ''unexpected end of JSON input'')))"

definition example_lib :: image_lib where
  "example_lib =
     \<lparr>json_Unmarshal = example_Unmarshal,
      TypeLayersWithBase = ''layers+base'',
      BaseLayerID = (\<lambda>r. ''id:'' @ BaseLayer r),
      fmt_q = (\<lambda>s. [CHR 0x22] @ s @ [CHR 0x22])\<rparr>"

definition example_store :: image_Store where
  "example_store =
     [(''img1'', \<lparr>RootFS = \<lparr>Type = ''layers'', DiffIDs = [''d0''], BaseLayer = ''B''\<rparr>\<rparr>),
      (''img2'', \<lparr>RootFS = \<lparr>Type = ''layers+base'', DiffIDs = [''d1''], BaseLayer = ''B''\<rparr>\<rparr>)]"

definition example_rootFS :: image_RootFS where
  "example_rootFS = \<lparr>Type = ''layers'', DiffIDs = [''d1'', ''d2''], BaseLayer = []\<rparr>"

definition example_entry :: "string \<Rightarrow> schema1_History" where
  "example_entry blob = \<lparr>V1Compatibility = blob\<rparr>"

text \<open>
  A network that counts its calls, on which every seek on \<open>u1\<close> fails with status 404, every
  seek on \<open>u4\<close> fails with status 503, and every other seek succeeds.
\<close>

definition example_transport :: "nat transport" where
  "example_transport =
     \<lparr>Blobs_Open = (\<lambda>dgst n. ((Some (BlobReader dgst), None), Suc n)),
      Seek = (\<lambda>rsc offset whence n.
                if rsc = HTTPReadSeeker ''u1'' then ((0, Some (Err ''404 Not Found'')), Suc n)
                else if rsc = HTTPReadSeeker ''u4''
                then ((0, Some (Err ''503 Service Unavailable'')), Suc n)
                else ((offset, None), Suc n)),
      Close = (\<lambda>rsc n. (None, Suc n))\<rparr>"

definition example_descriptor :: "string list \<Rightarrow> v2LayerDescriptor" where
  "example_descriptor urls =
     \<lparr>digest = ''sha256:aa'', src = \<lparr>MediaType = ''foreign'', URLs = urls\<rparr>\<rparr>"

text \<open>
  References that are their printed form, pinned by appending the digest; a digest function that
  fails on the empty manifest; and a policy that reads the manifest bytes: it allows
  \<open>signed\<close>, denies \<open>unsigned\<close> with a reason, denies \<open>unknown\<close> without one, and allows
  \<open>expired\<close> while reporting an error.
\<close>

definition example_trust_lib :: "string trust_lib" where
  "example_trust_lib =
     \<lparr>ref_String = (\<lambda>r. r),
      manifest_Digest = (\<lambda>mfst. if mfst = [] then ([], Some (Err ''empty manifest''))
                                else (''sha256:'' @ mfst, None)),
      reference_WithDigest = (\<lambda>r dgst. (Some (r @ ''@'' @ dgst), None))\<rparr>"

definition example_policy :: "unit signature_PolicyContext" where
  "example_policy unparsed =
     (if fst (Manifest unparsed) = ''signed'' then (True, None)
      else if fst (Manifest unparsed) = ''unsigned''
      then (False, Some (Err ''signature required''))
      else if fst (Manifest unparsed) = ''expired'' then (True, Some (Err ''key expired''))
      else (False, None))"

definition example_puller :: "(string, unit) v2Puller" where
  "example_puller = \<lparr>originalRef = None, policyContext = example_policy\<rparr>"

definition example_unparsed :: "string \<Rightarrow> types_UnparsedImage" where
  "example_unparsed mfst = \<lparr>Manifest = (mfst, ''application/json'', None)\<rparr>"

section \<open>Properties of base layer detection\<close>

text \<open>
  The loop returns at the first entry, in the order visited, whose RootFS has the type
  \<open>TypeLayersWithBase\<close> and whose base layer identifier is the declared parent.
\<close>

lemma detectBaseLayer_range_find:
  "detectBaseLayer_range L v1img istore rootFS =
     map_option
       (\<lambda>img. rootFS\<lparr>BaseLayer := BaseLayer (RootFS img), Type := TypeLayersWithBase L\<rparr>)
       (find (\<lambda>img. Type (RootFS img) = TypeLayersWithBase L
                     \<and> BaseLayerID L (RootFS img) = Parent v1img)
          (map snd istore))"
  by (induction istore) auto

lemma example_decoded:
  "json_Unmarshal example_lib ''e0'' \<lparr>ID = [], Parent = []\<rparr> =
     (\<lparr>ID = ''L0'', Parent = ''id:B''\<rparr>, None)"
  "json_Unmarshal example_lib ''e1'' \<lparr>ID = [], Parent = []\<rparr> =
     (\<lparr>ID = ''L1'', Parent = ''L0''\<rparr>, None)"
  "json_Unmarshal example_lib ''e2'' \<lparr>ID = [], Parent = []\<rparr> =
     (\<lparr>ID = ''L2'', Parent = []\<rparr>, None)"
  "json_Unmarshal example_lib ''e3'' \<lparr>ID = [], Parent = []\<rparr> =
     (\<lparr>ID = ''L3'', Parent = ''id:Z''\<rparr>, None)"
  by (simp_all add: example_lib_def example_Unmarshal_def)

text \<open>
  Claim C2, as the code has it: for every manifest with a non-empty history, the resolver
  obtains the declared parent identifier by decoding the embedded metadata of the last history
  entry (index \<open>len(m.History)-1\<close>). With \<open>(v1img, err)\<close> what \<open>json.Unmarshal\<close> makes of
  that entry's blob, the outcome is: the decoding error if there is one; the
  \<open>Last layer ... does not have a base layer reference\<close> error if \<open>v1img.Parent\<close> is empty;
  the RootFS attached to the first stored image whose base layer identifier is
  \<open>v1img.Parent\<close> if there is one; and the \<open>Invalid base layer\<close> error naming
  \<open>v1img.Parent\<close> otherwise. No other entry is read: the manifest that holds the last entry
  alone has the same outcome.
\<close>

theorem detectBaseLayer_decodes_last_entry:
  assumes "History m \<noteq> []"
    and "json_Unmarshal L (V1Compatibility (last (History m))) \<lparr>ID = [], Parent = []\<rparr>
           = (v1img, err)"
  shows "last (History m) = History m ! (length (History m) - 1)
         \<and> detectBaseLayer_windows L istore m rootFS =
             (case err of
                Some e \<Rightarrow> Return (rootFS, Some e, [])
              | None \<Rightarrow>
                  if Parent v1img = []
                  then Return (rootFS,
                         Some (Err (''Last layer '' @ fmt_q L (ID v1img)
                                      @ '' does not have a base layer reference'')), [])
                  else
                    (case find (\<lambda>i. Type (RootFS i) = TypeLayersWithBase L
                                      \<and> BaseLayerID L (RootFS i) = Parent v1img)
                            (map snd istore) of
                       Some img \<Rightarrow>
                         Return (rootFS\<lparr>BaseLayer := BaseLayer (RootFS img),
                                         Type := TypeLayersWithBase L\<rparr>, None, [Store_Map])
                     | None \<Rightarrow>
                         Return (rootFS,
                           Some (Err (''Invalid base layer '' @ fmt_q L (Parent v1img))),
                           [Store_Map])))
         \<and> detectBaseLayer_windows L istore m rootFS =
             detectBaseLayer_windows L istore (m\<lparr>History := [last (History m)]\<rparr>) rootFS"
proof -
  have l: "last (History m) = History m ! (length (History m) - 1)"
    using assms(1) by (rule last_conv_nth)
  have r: "detectBaseLayer_windows L istore m rootFS =
             (case err of
                Some e \<Rightarrow> Return (rootFS, Some e, [])
              | None \<Rightarrow>
                  if Parent v1img = []
                  then Return (rootFS,
                         Some (Err (''Last layer '' @ fmt_q L (ID v1img)
                                      @ '' does not have a base layer reference'')), [])
                  else
                    (case find (\<lambda>i. Type (RootFS i) = TypeLayersWithBase L
                                      \<and> BaseLayerID L (RootFS i) = Parent v1img)
                            (map snd istore) of
                       Some img \<Rightarrow>
                         Return (rootFS\<lparr>BaseLayer := BaseLayer (RootFS img),
                                         Type := TypeLayersWithBase L\<rparr>, None, [Store_Map])
                     | None \<Rightarrow>
                         Return (rootFS,
                           Some (Err (''Invalid base layer '' @ fmt_q L (Parent v1img))),
                           [Store_Map])))"
    using assms l
    by (simp add: detectBaseLayer_windows_def detectBaseLayer_range_find
        split: option.splits)
  have i: "detectBaseLayer_windows L istore m rootFS =
             detectBaseLayer_windows L istore (m\<lparr>History := [last (History m)]\<rparr>) rootFS"
    using assms(1) l by (simp add: detectBaseLayer_windows_def)
  from l r i show ?thesis by blast
qed

theorem detectBaseLayer_decodes_last_entry_witness:
  "Parent (fst (json_Unmarshal example_lib (V1Compatibility (example_entry ''e3''))
                  \<lparr>ID = [], Parent = []\<rparr>)) = ''id:Z''
   \<and> json_Unmarshal example_lib
        (V1Compatibility
           (last (History \<lparr>History = [example_entry ''e3'', example_entry ''e1'',
                                        example_entry ''e0'']\<rparr>)))
        \<lparr>ID = [], Parent = []\<rparr> = (\<lparr>ID = ''L0'', Parent = ''id:B''\<rparr>, None)
   \<and> detectBaseLayer_windows example_lib example_store
        \<lparr>History = [example_entry ''e3'', example_entry ''e1'', example_entry ''e0'']\<rparr>
        example_rootFS =
      Return (\<lparr>Type = ''layers+base'', DiffIDs = [''d1'', ''d2''], BaseLayer = ''B''\<rparr>, None,
        [Store_Map])"
proof -
  let ?m = "\<lparr>History = [example_entry ''e3'', example_entry ''e1'', example_entry ''e0'']\<rparr>"
  have z: "Parent (fst (json_Unmarshal example_lib (V1Compatibility (example_entry ''e3''))
                          \<lparr>ID = [], Parent = []\<rparr>)) = ''id:Z''"
    by (simp add: example_entry_def example_decoded)
  have h1: "History ?m \<noteq> []" by simp
  have h2: "json_Unmarshal example_lib (V1Compatibility (last (History ?m)))
              \<lparr>ID = [], Parent = []\<rparr> = (\<lparr>ID = ''L0'', Parent = ''id:B''\<rparr>, None)"
    by (simp add: example_entry_def example_decoded)
  from detectBaseLayer_decodes_last_entry [OF h1 h2, of example_store example_rootFS]
  have "detectBaseLayer_windows example_lib example_store ?m example_rootFS =
          Return (\<lparr>Type = ''layers+base'', DiffIDs = [''d1'', ''d2''], BaseLayer = ''B''\<rparr>, None,
            [Store_Map])"
    by (simp add: example_store_def example_lib_def example_rootFS_def)
  with z h2 show ?thesis by blast
qed

text \<open>
  Claim C2 as stated (the parent is decoded from the first entry, index 0) fails on a manifest in
  the order oldest first: entry 0 is the layer \<open>L0\<close> with the declared parent \<open>id:B\<close>, entry 1
  is the layer \<open>L1\<close> on top of \<open>L0\<close>. The store holds an image whose base layer identifier is
  \<open>id:B\<close>, and the manifest made of entry 0 alone is resolved against it. On the two entries
  the resolver fails and names \<open>L0\<close>, the parent that entry 1 declares.
\<close>

theorem detectBaseLayer_first_entry_counterexample:
  "Parent (fst (json_Unmarshal example_lib (V1Compatibility (example_entry ''e0''))
                  \<lparr>ID = [], Parent = []\<rparr>)) = ''id:B''
   \<and> detectBaseLayer_windows example_lib example_store
        \<lparr>History = [example_entry ''e0'']\<rparr> example_rootFS =
      Return (example_rootFS\<lparr>BaseLayer := ''B'', Type := ''layers+base''\<rparr>, None, [Store_Map])
   \<and> detectBaseLayer_windows example_lib example_store
        \<lparr>History = [example_entry ''e0'', example_entry ''e1'']\<rparr> example_rootFS =
      Return (example_rootFS,
        Some (Err (''Invalid base layer '' @ [CHR 0x22] @ ''L0'' @ [CHR 0x22])), [Store_Map])"
  by (simp add: detectBaseLayer_windows_def example_decoded example_entry_def example_store_def)
    (simp add: example_lib_def)

text \<open>
  Claim C4, as the code has it: for every manifest with a non-empty history whose last entry
  (index \<open>len(m.History)-1\<close>, the entry the resolver decodes) declares a non-empty parent,
  when no image of the store has a RootFS of type \<open>TypeLayersWithBase\<close> whose base layer
  identifier is that parent, the resolver returns an error, leaves the RootFS as it was, and
  the message of the error is \<open>Invalid base layer\<close> followed by that parent identifier as
  \<open>%q\<close> prints it.
\<close>

theorem detectBaseLayer_unresolved_names_parent:
  assumes "History m \<noteq> []"
    and "json_Unmarshal L (V1Compatibility (History m ! (length (History m) - 1)))
           \<lparr>ID = [], Parent = []\<rparr> = (v1img, None)"
    and "Parent v1img \<noteq> []"
    and "\<forall>(k, img) \<in> set istore.
           \<not> (Type (RootFS img) = TypeLayersWithBase L
              \<and> BaseLayerID L (RootFS img) = Parent v1img)"
  shows "detectBaseLayer_windows L istore m rootFS =
           Return (rootFS, Some (Err (''Invalid base layer '' @ fmt_q L (Parent v1img))),
             [Store_Map])"
proof -
  have "detectBaseLayer_range L v1img istore rootFS = None"
    using assms(4) by (induction istore) auto
  with assms(1-3) show ?thesis
    by (simp add: detectBaseLayer_windows_def)
qed

theorem detectBaseLayer_unresolved_names_parent_witness:
  "detectBaseLayer_windows example_lib example_store
     \<lparr>History = [example_entry ''e1'', example_entry ''e3'']\<rparr> example_rootFS =
   Return (example_rootFS,
     Some (Err (''Invalid base layer '' @ [CHR 0x22] @ ''id:Z'' @ [CHR 0x22])), [Store_Map])"
proof -
  let ?m = "\<lparr>History = [example_entry ''e1'', example_entry ''e3'']\<rparr>"
  have h1: "History ?m \<noteq> []" by simp
  have h2: "json_Unmarshal example_lib (V1Compatibility (History ?m ! (length (History ?m) - 1)))
              \<lparr>ID = [], Parent = []\<rparr> = (\<lparr>ID = ''L3'', Parent = ''id:Z''\<rparr>, None)"
    by (simp add: example_entry_def example_decoded)
  have h3: "Parent \<lparr>ID = ''L3'', Parent = ''id:Z''\<rparr> \<noteq> []" by simp
  have h4: "\<forall>(k, img) \<in> set example_store.
              \<not> (Type (RootFS img) = TypeLayersWithBase example_lib
                 \<and> BaseLayerID example_lib (RootFS img)
                     = Parent \<lparr>ID = ''L3'', Parent = ''id:Z''\<rparr>)"
    by (simp add: example_store_def example_lib_def)
  from detectBaseLayer_unresolved_names_parent [OF h1 h2 h3 h4, of example_rootFS]
  show ?thesis by (simp add: example_lib_def)
qed

text \<open>
  Claim C4 as stated (the parent is the one the oldest entry declares, index 0 in the order
  oldest first) fails on the manifest whose entry 0 is the layer \<open>L3\<close> with the declared
  parent \<open>id:Z\<close> and whose entry 1 declares the parent \<open>id:B\<close>. The parent of entry 0 is
  not empty and no stored image has the base layer identifier \<open>id:Z\<close> (the manifest made of
  entry 0 alone is refused with that name), yet on the two entries the resolver succeeds and
  attaches the RootFS to the base layer \<open>B\<close>.
\<close>

theorem detectBaseLayer_oldest_first_parent_counterexample:
  "Parent (fst (json_Unmarshal example_lib
                  (V1Compatibility
                     (History \<lparr>History = [example_entry ''e3'', example_entry ''e0'']\<rparr> ! 0))
                  \<lparr>ID = [], Parent = []\<rparr>)) = ''id:Z''
   \<and> map (Type \<circ> RootFS \<circ> snd) example_store = [''layers'', ''layers+base'']
   \<and> map (BaseLayerID example_lib \<circ> RootFS \<circ> snd) example_store = [''id:B'', ''id:B'']
   \<and> detectBaseLayer_windows example_lib example_store
        \<lparr>History = [example_entry ''e3'']\<rparr> example_rootFS =
      Return (example_rootFS,
        Some (Err (''Invalid base layer '' @ [CHR 0x22] @ ''id:Z'' @ [CHR 0x22])), [Store_Map])
   \<and> detectBaseLayer_windows example_lib example_store
        \<lparr>History = [example_entry ''e3'', example_entry ''e0'']\<rparr> example_rootFS =
      Return (example_rootFS\<lparr>BaseLayer := ''B'', Type := ''layers+base''\<rparr>, None, [Store_Map])"
  by (simp add: detectBaseLayer_windows_def example_decoded example_entry_def example_store_def)
    (simp add: example_lib_def)

text \<open>
  Claim C5: when the decoded metadata declares the empty string as its parent, the resolver
  returns the error \<open>Last layer ... does not have a base layer reference\<close>, the RootFS is as
  it was, and no call was made on the image store (the right-hand side does not depend on the
  store either).
\<close>

theorem detectBaseLayer_empty_parent:
  assumes "History m \<noteq> []"
    and "json_Unmarshal L (V1Compatibility (History m ! (length (History m) - 1)))
           \<lparr>ID = [], Parent = []\<rparr> = (v1img, None)"
    and "Parent v1img = []"
  shows "detectBaseLayer_windows L istore m rootFS =
           Return (rootFS,
             Some (Err (''Last layer '' @ fmt_q L (ID v1img)
                          @ '' does not have a base layer reference'')), [])"
  using assms by (simp add: detectBaseLayer_windows_def)

theorem detectBaseLayer_empty_parent_witness:
  "detectBaseLayer_windows example_lib example_store
     \<lparr>History = [example_entry ''e1'', example_entry ''e2'']\<rparr> example_rootFS =
   Return (example_rootFS,
     Some (Err (''Last layer '' @ [CHR 0x22] @ ''L2'' @ [CHR 0x22]
                  @ '' does not have a base layer reference'')), [])"
proof -
  let ?m = "\<lparr>History = [example_entry ''e1'', example_entry ''e2'']\<rparr>"
  have h1: "History ?m \<noteq> []" by simp
  have h2: "json_Unmarshal example_lib (V1Compatibility (History ?m ! (length (History ?m) - 1)))
              \<lparr>ID = [], Parent = []\<rparr> = (\<lparr>ID = ''L2'', Parent = []\<rparr>, None)"
    by (simp add: example_entry_def example_decoded)
  have h3: "Parent \<lparr>ID = ''L2'', Parent = []\<rparr> = []" by simp
  from detectBaseLayer_empty_parent [OF h1 h2 h3, of example_store example_rootFS]
  show ?thesis by (simp add: example_lib_def)
qed

text \<open>
  Claim C8: when the resolver scans the store and an image of the store has a RootFS of type
  \<open>TypeLayersWithBase\<close> whose base layer identifier is the declared parent, the resolver
  returns no error, and on return the new RootFS has the \<open>BaseLayer\<close> of a stored image that
  matches (the first one the loop visits) and the type \<open>TypeLayersWithBase\<close>.
\<close>

theorem detectBaseLayer_match_propagates:
  assumes "History m \<noteq> []"
    and "json_Unmarshal L (V1Compatibility (History m ! (length (History m) - 1)))
           \<lparr>ID = [], Parent = []\<rparr> = (v1img, None)"
    and "Parent v1img \<noteq> []"
    and "(k, img) \<in> set istore"
    and "Type (RootFS img) = TypeLayersWithBase L"
    and "BaseLayerID L (RootFS img) = Parent v1img"
  shows "\<exists>k' img'. (k', img') \<in> set istore
           \<and> Type (RootFS img') = TypeLayersWithBase L
           \<and> BaseLayerID L (RootFS img') = Parent v1img
           \<and> find (\<lambda>i. Type (RootFS i) = TypeLayersWithBase L
                         \<and> BaseLayerID L (RootFS i) = Parent v1img) (map snd istore)
               = Some img'
           \<and> detectBaseLayer_windows L istore m rootFS =
               Return (rootFS\<lparr>BaseLayer := BaseLayer (RootFS img'),
                               Type := TypeLayersWithBase L\<rparr>, None, [Store_Map])"
proof -
  let ?P = "\<lambda>i. Type (RootFS i) = TypeLayersWithBase L
                 \<and> BaseLayerID L (RootFS i) = Parent v1img"
  have "img \<in> set (map snd istore)" using assms(4) by force
  with assms(5,6) have "find ?P (map snd istore) \<noteq> None"
    by (auto simp: find_None_iff)
  then obtain img' where f: "find ?P (map snd istore) = Some img'" by auto
  then have p: "?P img'" and "img' \<in> set (map snd istore)"
    by (auto simp: find_Some_iff)
  then obtain k' where k: "(k', img') \<in> set istore" by auto
  have "detectBaseLayer_windows L istore m rootFS =
          Return (rootFS\<lparr>BaseLayer := BaseLayer (RootFS img'),
                          Type := TypeLayersWithBase L\<rparr>, None, [Store_Map])"
    using assms(1-3) f by (simp add: detectBaseLayer_windows_def detectBaseLayer_range_find)
  with k p f show ?thesis by blast
qed

theorem detectBaseLayer_match_propagates_witness:
  "detectBaseLayer_windows example_lib example_store
     \<lparr>History = [example_entry ''e1'', example_entry ''e0'']\<rparr> example_rootFS =
   Return (\<lparr>Type = ''layers+base'', DiffIDs = [''d1'', ''d2''], BaseLayer = ''B''\<rparr>, None,
     [Store_Map])"
proof -
  let ?m = "\<lparr>History = [example_entry ''e1'', example_entry ''e0'']\<rparr>"
  let ?img = "\<lparr>RootFS = \<lparr>Type = ''layers+base'', DiffIDs = [''d1''], BaseLayer = ''B''\<rparr>\<rparr>"
  have h1: "History ?m \<noteq> []" by simp
  have h2: "json_Unmarshal example_lib (V1Compatibility (History ?m ! (length (History ?m) - 1)))
              \<lparr>ID = [], Parent = []\<rparr> = (\<lparr>ID = ''L0'', Parent = ''id:B''\<rparr>, None)"
    by (simp add: example_entry_def example_decoded)
  have h3: "Parent \<lparr>ID = ''L0'', Parent = ''id:B''\<rparr> \<noteq> []" by simp
  have h4: "(''img2'', ?img) \<in> set example_store"
    by (simp add: example_store_def)
  have h5: "Type (RootFS ?img) = TypeLayersWithBase example_lib"
    by (simp add: example_lib_def)
  have h6: "BaseLayerID example_lib (RootFS ?img) = Parent \<lparr>ID = ''L0'', Parent = ''id:B''\<rparr>"
    by (simp add: example_lib_def)
  from detectBaseLayer_match_propagates [OF h1 h2 h3 h4 h5 h6, of example_rootFS]
  obtain k' img' where
    i: "(k', img') \<in> set example_store" and
    t: "Type (RootFS img') = TypeLayersWithBase example_lib" and
    r: "detectBaseLayer_windows example_lib example_store ?m example_rootFS =
          Return (example_rootFS\<lparr>BaseLayer := BaseLayer (RootFS img'),
                    Type := TypeLayersWithBase example_lib\<rparr>, None, [Store_Map])"
    by blast
  from i t have "img' = ?img"
    by (auto simp: example_store_def example_lib_def)
  with r show ?thesis
    by (simp add: example_lib_def example_rootFS_def)
qed

text \<open>
  Claim C10: whatever detectBaseLayer returns, the RootFS on return has the \<open>DiffIDs\<close> and
  every further field of the RootFS it was given, so that only \<open>BaseLayer\<close> and \<open>Type\<close> can
  differ; and whenever it returns an error (metadata that does not decode, an empty parent, no
  matching image) the RootFS on return is the RootFS it was given. (A panic on an empty history
  happens before any write.)
\<close>

theorem detectBaseLayer_frame:
  assumes "detectBaseLayer_windows L istore m rootFS = Return (rootFS', err, calls)"
  shows "DiffIDs rootFS' = DiffIDs rootFS
         \<and> image_RootFS.more rootFS' = image_RootFS.more rootFS
         \<and> (err \<noteq> None \<longrightarrow> rootFS' = rootFS)"
  using assms
  by (auto simp: detectBaseLayer_windows_def detectBaseLayer_range_find
      split: if_splits prod.splits option.splits)

theorem detectBaseLayer_frame_witness:
  "detectBaseLayer_windows example_lib example_store
     \<lparr>History = [example_entry ''e1'', example_entry ''e0'']\<rparr> example_rootFS =
   Return (\<lparr>Type = ''layers+base'', DiffIDs = [''d1'', ''d2''], BaseLayer = ''B''\<rparr>, None,
     [Store_Map])
   \<and> DiffIDs \<lparr>Type = ''layers+base'', DiffIDs = [''d1'', ''d2''], BaseLayer = ''B''\<rparr> =
       DiffIDs example_rootFS
   \<and> detectBaseLayer_windows example_lib example_store
        \<lparr>History = [example_entry ''e1'', example_entry ''e3'']\<rparr> example_rootFS =
      Return (\<lparr>Type = ''layers'', DiffIDs = [''d1'', ''d2''], BaseLayer = []\<rparr>,
        Some (Err (''Invalid base layer '' @ [CHR 0x22] @ ''id:Z'' @ [CHR 0x22])), [Store_Map])
   \<and> \<lparr>Type = ''layers'', DiffIDs = [''d1'', ''d2''], BaseLayer = []\<rparr> = example_rootFS"
proof -
  have ok: "detectBaseLayer_windows example_lib example_store
              \<lparr>History = [example_entry ''e1'', example_entry ''e0'']\<rparr> example_rootFS =
            Return (\<lparr>Type = ''layers+base'', DiffIDs = [''d1'', ''d2''], BaseLayer = ''B''\<rparr>,
              None, [Store_Map])"
    by (simp add: detectBaseLayer_windows_def example_decoded example_entry_def example_store_def)
      (simp add: example_lib_def example_rootFS_def)
  have failed: "detectBaseLayer_windows example_lib example_store
                  \<lparr>History = [example_entry ''e1'', example_entry ''e3'']\<rparr> example_rootFS =
                Return (\<lparr>Type = ''layers'', DiffIDs = [''d1'', ''d2''], BaseLayer = []\<rparr>,
                  Some (Err (''Invalid base layer '' @ [CHR 0x22] @ ''id:Z'' @ [CHR 0x22])),
                  [Store_Map])"
    by (simp add: detectBaseLayer_windows_def example_decoded example_entry_def example_store_def)
      (simp add: example_lib_def example_rootFS_def)
  from detectBaseLayer_frame [OF ok]
  have kept: "DiffIDs \<lparr>Type = ''layers+base'', DiffIDs = [''d1'', ''d2''], BaseLayer = ''B''\<rparr> =
                DiffIDs example_rootFS"
    by blast
  from detectBaseLayer_frame [OF failed]
  have same: "\<lparr>Type = ''layers'', DiffIDs = [''d1'', ''d2''], BaseLayer = []\<rparr> = example_rootFS"
    by blast
  from ok kept failed same show ?thesis by blast
qed

section \<open>Properties of the layer descriptor\<close>

lemma failures_length:
  "failures T urls net = Some (errs, net') \<Longrightarrow> length errs = length urls"
  by (induction urls arbitrary: net errs) (auto split: prod.splits option.splits)

lemma urls_tried_failed_calls: "urls_tried (failed_calls urls @ cs) = urls @ urls_tried cs"
  by (induction urls) auto

text \<open>
  While the attempts fail, the loop closes each stream, keeps the error of the attempt it has
  just made, and goes on with the rest of the list.
\<close>

lemma open_range_failures:
  "failures T pre net = Some (errs, net1) \<Longrightarrow>
   open_range T (pre @ rest) (rsc, err) net calls =
     open_range T rest (if pre = [] then (rsc, err) else (None, Some (last errs))) net1
       (calls @ failed_calls pre)"
proof (induction pre arbitrary: net errs rsc err calls)
  case Nil
  then show ?case by simp
next
  case (Cons url pre)
  from Cons.prems obtain pos e net' errs' where
    s: "Seek T (HTTPReadSeeker url) 0 SEEK_SET net = ((pos, Some e), net')" and
    f: "failures T pre (snd (Close T (HTTPReadSeeker url) net')) = Some (errs', net1)" and
    e: "errs = e # errs'"
    by (auto split: prod.splits option.splits)
  have l: "pre \<noteq> [] \<Longrightarrow> errs' \<noteq> []"
    using failures_length [OF f] by auto
  have p: "pre = [] \<Longrightarrow> errs' = []"
    using failures_length [OF f] by auto
  show ?case
    using s e l p Cons.IH [OF f, of None "Some e"] by simp
qed

text \<open>
  Claim C3: let the list of alternate URLs be \<open>pre @ url # post\<close>, where every URL of \<open>pre\<close>
  fails when tried in order and the seek to offset 0 on the stream of \<open>url\<close> then succeeds.
  Then \<open>open\<close> returns the stream opened from \<open>url\<close> with no error; the calls it made are the
  failed attempts on \<open>pre\<close>, in list order, followed by the one seek on \<open>url\<close>; so the URLs it
  tried are \<open>pre @ [url]\<close> and nothing of \<open>post\<close> was attempted.
\<close>

theorem open_first_success:
  assumes "URLs (src ld) = pre @ url # post"
    and "failures T pre net = Some (errs, net1)"
    and "Seek T (HTTPReadSeeker url) 0 SEEK_SET net1 = ((pos, None), net2)"
  shows "open_windows T ld net =
           ((Some (HTTPReadSeeker url), None), net2,
            failed_calls pre @ [Call_Seek (HTTPReadSeeker url) 0 SEEK_SET])
         \<and> urls_tried (failed_calls pre @ [Call_Seek (HTTPReadSeeker url) 0 SEEK_SET])
             = pre @ [url]"
proof -
  have "open_range T (pre @ url # post) (None, None) net [] =
          ((Some (HTTPReadSeeker url), None), net2,
           failed_calls pre @ [Call_Seek (HTTPReadSeeker url) 0 SEEK_SET])"
    using assms(3) by (simp add: open_range_failures [OF assms(2)])
  then show ?thesis
    using assms(1) by (simp add: open_windows_def urls_tried_failed_calls)
qed

theorem open_first_success_witness:
  "open_windows example_transport (example_descriptor [''u1'', ''u2'', ''u3'']) 0 =
     ((Some (HTTPReadSeeker ''u2''), None), 3,
      [Call_Seek (HTTPReadSeeker ''u1'') 0 SEEK_SET, Call_Close (HTTPReadSeeker ''u1''),
       Call_Seek (HTTPReadSeeker ''u2'') 0 SEEK_SET])
   \<and> urls_tried
        [Call_Seek (HTTPReadSeeker ''u1'') 0 SEEK_SET, Call_Close (HTTPReadSeeker ''u1''),
         Call_Seek (HTTPReadSeeker ''u2'') 0 SEEK_SET] = [''u1'', ''u2'']"
proof -
  have h1: "URLs (src (example_descriptor [''u1'', ''u2'', ''u3''])) = [''u1''] @ ''u2'' # [''u3'']"
    by (simp add: example_descriptor_def)
  have h2: "failures example_transport [''u1''] 0 = Some ([Err ''404 Not Found''], 2)"
    by (simp add: example_transport_def)
  have h3: "Seek example_transport (HTTPReadSeeker ''u2'') 0 SEEK_SET 2 = ((0, None), 3)"
    by (simp add: example_transport_def)
  from open_first_success [OF h1 h2 h3] show ?thesis by simp
qed

text \<open>
  Claim C7: when the list of alternate URLs is not empty and every URL of it fails when tried in
  order, \<open>open\<close> returns no stream, and the error it returns is the last of the errors of the
  attempts, which is the error of the last URL of the list (there is one error for each URL);
  every URL was tried and closed.
\<close>

theorem open_all_fail_last_error:
  assumes "URLs (src ld) \<noteq> []"
    and "failures T (URLs (src ld)) net = Some (errs, net')"
  shows "open_windows T ld net =
           ((None, Some (last errs)), net', failed_calls (URLs (src ld)))
         \<and> length errs = length (URLs (src ld))"
  using assms open_range_failures [OF assms(2), of "[]" None None "[]"]
    failures_length [OF assms(2)]
  by (simp add: open_windows_def)

theorem open_all_fail_last_error_witness:
  "open_windows example_transport (example_descriptor [''u1'', ''u4'']) 0 =
     ((None, Some (Err ''503 Service Unavailable'')), 4,
      [Call_Seek (HTTPReadSeeker ''u1'') 0 SEEK_SET, Call_Close (HTTPReadSeeker ''u1''),
       Call_Seek (HTTPReadSeeker ''u4'') 0 SEEK_SET, Call_Close (HTTPReadSeeker ''u4'')])"
proof -
  have h1: "URLs (src (example_descriptor [''u1'', ''u4''])) \<noteq> []"
    by (simp add: example_descriptor_def)
  have h2: "failures example_transport (URLs (src (example_descriptor [''u1'', ''u4'']))) 0 =
              Some ([Err ''404 Not Found'', Err ''503 Service Unavailable''], 4)"
    by (simp add: example_transport_def example_descriptor_def)
  from open_all_fail_last_error [OF h1 h2] show ?thesis
    by (simp add: example_descriptor_def)
qed

section \<open>Properties of the trust check\<close>

lemma example_verdicts:
  "IsRunningImageAllowed (policyContext example_puller) (example_unparsed ''signed'') =
     (True, None)"
  "IsRunningImageAllowed (policyContext example_puller) (example_unparsed ''unsigned'') =
     (False, Some (Err ''signature required''))"
  "IsRunningImageAllowed (policyContext example_puller) (example_unparsed ''unknown'') =
     (False, None)"
  "IsRunningImageAllowed (policyContext example_puller) (example_unparsed ''expired'') =
     (True, Some (Err ''key expired''))"
  by (simp_all add: IsRunningImageAllowed_def example_puller_def example_policy_def
      example_unparsed_def)

text \<open>
  Claim C1: in the build without a signature policy, checkTrusted returns the reference it was
  given, unchanged, and no error. In the build with a policy, when the policy engine allows the
  image (and reports no error) and the manifest is retrieved, digested and pinned without error,
  checkTrusted returns the reference that \<open>reference.WithDigest\<close> makes of the original
  reference and the digest of the manifest; and whenever it returns without error, the engine
  had allowed the image and the returned reference is that pinned reference. Nothing in this
  depends on what the given reference carries, a digest included.
\<close>

theorem checkTrusted_digest_pinning:
  "checkTrusted_windows p ref unparsed = (p, Some ref, None)
   \<and> (IsRunningImageAllowed (policyContext p) unparsed = (True, None)
        \<and> Manifest unparsed = (mfst, mediaType, None)
        \<and> manifest_Digest L mfst = (dgst, None)
        \<and> reference_WithDigest L ref dgst = (pinned, None)
      \<longrightarrow> checkTrusted_unix L p ref unparsed = (p\<lparr>originalRef := Some ref\<rparr>, pinned, None))
   \<and> (checkTrusted_unix L p ref unparsed = (p', returned, None)
      \<longrightarrow> fst (IsRunningImageAllowed (policyContext p) unparsed)
          \<and> reference_WithDigest L ref
               (fst (manifest_Digest L (fst (Manifest unparsed)))) = (returned, None))"
  by (auto simp: checkTrusted_windows_def checkTrusted_unix_def Let_def
      split: prod.splits option.splits if_splits)

theorem checkTrusted_digest_pinning_witness:
  "checkTrusted_windows example_puller ''repo/image:latest'' (example_unparsed ''signed'') =
     (example_puller, Some ''repo/image:latest'', None)
   \<and> checkTrusted_unix example_trust_lib example_puller ''repo/image:latest''
        (example_unparsed ''signed'') =
      (example_puller\<lparr>originalRef := Some ''repo/image:latest''\<rparr>,
       Some ''repo/image:latest@sha256:signed'', None)
   \<and> reference_WithDigest example_trust_lib ''repo/image:latest''
        (fst (manifest_Digest example_trust_lib (fst (Manifest (example_unparsed ''signed''))))) =
      (Some ''repo/image:latest@sha256:signed'', None)"
proof -
  let ?u = "example_unparsed ''signed''"
  let ?pinned = "Some ''repo/image:latest@sha256:signed''"
  have h1: "IsRunningImageAllowed (policyContext example_puller) ?u = (True, None)"
    by (rule example_verdicts)
  have h2: "Manifest ?u = (''signed'', ''application/json'', None)"
    by (simp add: example_unparsed_def)
  have h3: "manifest_Digest example_trust_lib ''signed'' = (''sha256:signed'', None)"
    by (simp add: example_trust_lib_def)
  have h4: "reference_WithDigest example_trust_lib ''repo/image:latest'' ''sha256:signed'' =
              (?pinned, None)"
    by (simp add: example_trust_lib_def)
  note t = checkTrusted_digest_pinning [where p = example_puller and ref = "''repo/image:latest''"
      and unparsed = ?u and mfst = "''signed''" and mediaType = "''application/json''"
      and L = example_trust_lib and dgst = "''sha256:signed''" and pinned = ?pinned
      and p' = "example_puller\<lparr>originalRef := Some ''repo/image:latest''\<rparr>"
      and returned = ?pinned]
  from t have w: "checkTrusted_windows example_puller ''repo/image:latest'' ?u =
                    (example_puller, Some ''repo/image:latest'', None)"
    by (rule conjunct1)
  from t h1 h2 h3 h4
  have u: "checkTrusted_unix example_trust_lib example_puller ''repo/image:latest'' ?u =
             (example_puller\<lparr>originalRef := Some ''repo/image:latest''\<rparr>, ?pinned, None)"
    by blast
  with t have "reference_WithDigest example_trust_lib ''repo/image:latest''
                 (fst (manifest_Digest example_trust_lib (fst (Manifest ?u)))) = (?pinned, None)"
    by blast
  with w u show ?thesis by blast
qed

text \<open>
  Claim C6: whenever the policy engine answers that the image is not allowed, checkTrusted
  returns no reference and an error. The message of the error is the printed reference followed
  by \<open>isn't allowed:\<close> and the message of the engine's error when the engine gave one, and
  the printed reference followed by \<open>isn't allowed\<close> otherwise.
\<close>

theorem checkTrusted_denied:
  assumes "IsRunningImageAllowed (policyContext p) unparsed = (False, err)"
  shows "checkTrusted_unix L p ref unparsed =
           (p\<lparr>originalRef := Some ref\<rparr>, None,
            Some (Err (case err of
                         Some e \<Rightarrow> ref_String L ref @ '' isn't allowed: '' @ Error e
                       | None \<Rightarrow> ref_String L ref @ '' isn't allowed'')))"
  using assms by (simp add: checkTrusted_unix_def Let_def split: option.splits)

theorem checkTrusted_denied_witness:
  "checkTrusted_unix example_trust_lib example_puller ''repo/image:latest''
     (example_unparsed ''unsigned'') =
   (example_puller\<lparr>originalRef := Some ''repo/image:latest''\<rparr>, None,
    Some (Err ''repo/image:latest isn't allowed: signature required''))
   \<and> checkTrusted_unix example_trust_lib example_puller ''repo/image:latest''
       (example_unparsed ''unknown'') =
     (example_puller\<lparr>originalRef := Some ''repo/image:latest''\<rparr>, None,
      Some (Err ''repo/image:latest isn't allowed''))"
proof -
  from checkTrusted_denied [OF example_verdicts(2), of example_trust_lib "''repo/image:latest''"]
  have a: "checkTrusted_unix example_trust_lib example_puller ''repo/image:latest''
             (example_unparsed ''unsigned'') =
           (example_puller\<lparr>originalRef := Some ''repo/image:latest''\<rparr>, None,
            Some (Err ''repo/image:latest isn't allowed: signature required''))"
    by (simp add: example_trust_lib_def)
  from checkTrusted_denied [OF example_verdicts(3), of example_trust_lib "''repo/image:latest''"]
  have b: "checkTrusted_unix example_trust_lib example_puller ''repo/image:latest''
             (example_unparsed ''unknown'') =
           (example_puller\<lparr>originalRef := Some ''repo/image:latest''\<rparr>, None,
            Some (Err ''repo/image:latest isn't allowed''))"
    by (simp add: example_trust_lib_def)
  from a b show ?thesis by (rule conjI)
qed

text \<open>
  Claim C9: when the policy engine answers that the image is allowed and also returns an error,
  checkTrusted returns no reference and that very error: the manifest is not digested and the
  reference is not pinned.
\<close>

theorem checkTrusted_allowed_with_error:
  assumes "IsRunningImageAllowed (policyContext p) unparsed = (True, Some e)"
  shows "checkTrusted_unix L p ref unparsed = (p\<lparr>originalRef := Some ref\<rparr>, None, Some e)"
  using assms by (simp add: checkTrusted_unix_def Let_def)

theorem checkTrusted_allowed_with_error_witness:
  "IsRunningImageAllowed (policyContext example_puller) (example_unparsed ''expired'') =
     (True, Some (Err ''key expired''))
   \<and> checkTrusted_unix example_trust_lib example_puller ''repo/image:latest''
       (example_unparsed ''expired'') =
     (example_puller\<lparr>originalRef := Some ''repo/image:latest''\<rparr>, None,
      Some (Err ''key expired''))"
proof -
  note h = example_verdicts(4)
  from h checkTrusted_allowed_with_error [OF h, of example_trust_lib "''repo/image:latest''"]
  show ?thesis by (rule conjI)
qed

end
